theory Spec2Isabelle
  imports Main
begin

section \<open>Data model\<close>

text \<open>
  Errors are values. \<open>Thrown m\<close> is an error raised by a collaborator that the engine
  treats opaquely (a plugin handler, the file system, the artifact store), identified by
  its message; \<open>RunTaskError\<close> and \<open>TestError\<close> are the two error classes of
  \<^verbatim>\<open>tasks/run.ts\<close> and \<^verbatim>\<open>tasks/test.ts\<close>, built from
  \<^verbatim>\<open>status.detail?.log\<close>, which is \<^verbatim>\<open>undefined\<close> (here \<open>None\<close>) when the
  detail is null; \<open>PluginError\<close> is what output validation throws.
\<close>

datatype err =
    Thrown string
  | RunTaskError "string option"
  | TestError "string option"
  | PluginError string

text \<open>Output values of an action: the primitives a handler may return under a key.\<close>

datatype prim = Str string | Num int | Bool bool

type_synonym outputs_t = "(string \<times> prim) list"

text \<open>The fields of an action that the tasks and routers below read.\<close>

record Action =
  kind :: string
  name :: string
  versionString :: string
  moduleName :: string
  moduleVersion :: string
  allowPublish :: "bool option"
  isDisabled :: bool
  versionFiles :: "string list"

text \<open>The detail of a run or test result (\<^verbatim>\<open>RunResult\<close>/\<^verbatim>\<open>TestResult\<close>).\<close>

record RunResult =
  success :: bool
  exitCode :: "int option"
  log :: string
  namespaceStatus :: "string option"

text \<open>
  An action status: a state, a detail that may be null, and the outputs.
  \<^verbatim>\<open>GetRunResult\<close>/\<^verbatim>\<open>GetTestResult\<close> is the status whose detail is a
  \<open>RunResult\<close>.
\<close>

record 'd ActionStatus =
  state :: string
  detail :: "'d option"
  outputs :: outputs_t

type_synonym GetRunResult = "RunResult ActionStatus"

text \<open>The \<^verbatim>\<open>status\<close> field of a status event and the event payload itself.
  \<open>entityName\<close> and \<open>entityVersion\<close> are the fields \<^verbatim>\<open>taskName\<close>/\<^verbatim>\<open>taskVersion\<close>
  of a \<^verbatim>\<open>taskStatus\<close> event and \<^verbatim>\<open>testName\<close>/\<^verbatim>\<open>testVersion\<close> of a
  \<^verbatim>\<open>testStatus\<close> event; \<open>actionUid\<close> is absent from the events of
  \<^verbatim>\<open>getResult\<close>.\<close>

record RunStatusForEventPayload =
  ev_state :: string
  startedAt :: "nat option"
  completedAt :: "nat option"

record StatusPayload =
  actionName :: string
  actionVersion :: string
  entityName :: string
  pl_moduleName :: string
  pl_moduleVersion :: string
  entityVersion :: string
  actionUid :: "string option"
  pl_status :: RunStatusForEventPayload

text \<open>The observable effects of a router call, in the order they happen.\<close>

datatype effect =
    Emit string StatusPayload
  | SubscribeLog
  | CallHandler string "string option"
  | ValidateActionOutputs string outputs_t
  | EmitNamespaceEvent "string option"
  | CopyArtifacts string string
  | TmpCleanup string

text \<open>
  The collaborators of the routers that are not part of the routers' own code: the
  random uid, the clock, the temporary directory, the plugin handlers, output validation
  (\<^verbatim>\<open>router.validateActionOutputs\<close>), \<^verbatim>\<open>runStatus\<close>, and the artifact store.
  Each one that can throw returns an error value.
\<close>

record RouterEnv =
  uuidv4 :: string
  now :: nat
  tmp_dir :: "err + string"
  realpath :: "string \<Rightarrow> err + string"
  normalizePath :: "string \<Rightarrow> string"
  handler_run :: "Action \<Rightarrow> string \<Rightarrow> err + GetRunResult"
  handler_getResult :: "(Action \<Rightarrow> err + GetRunResult) option"
  validateActionOutputs :: "Action \<Rightarrow> string \<Rightarrow> outputs_t \<Rightarrow> err option"
  runStatus :: "RunResult option \<Rightarrow> RunStatusForEventPayload"
  getArtifactKey :: "string \<Rightarrow> string \<Rightarrow> string \<Rightarrow> string"
  copyArtifacts :: "string \<Rightarrow> string \<Rightarrow> err option"
  tmp_cleanup :: "string \<Rightarrow> err option"

section \<open>The run and test routers\<close>

definition statusPayload ::
  "Action \<Rightarrow> string option \<Rightarrow> RunStatusForEventPayload \<Rightarrow> StatusPayload" where
  "statusPayload action uid st =
     \<lparr> actionName = name action, actionVersion = versionString action,
       entityName = name action, pl_moduleName = moduleName action,
       pl_moduleVersion = moduleVersion action, entityVersion = versionString action,
       actionUid = uid, pl_status = st \<rparr>"

definition runningStatus :: "RouterEnv \<Rightarrow> RunStatusForEventPayload" where
  "runningStatus env = \<lparr> ev_state = ''running'', startedAt = Some (now env), completedAt = None \<rparr>"

text \<open>
  The body of the outer \<^verbatim>\<open>try\<close> of \<^verbatim>\<open>run\<close>: subscribe to the handler's log
  events, call the handler, validate its outputs, emit the second status event and the
  namespace event, return the handler's result. A throw ends the body where it happens.
\<close>

definition run_try_body ::
  "string \<Rightarrow> RouterEnv \<Rightarrow> Action \<Rightarrow> string \<Rightarrow> effect list \<times> (err + GetRunResult)" where
  "run_try_body evName env action artifactsPath =
     (case handler_run env action artifactsPath of
        Inl e \<Rightarrow> ([SubscribeLog, CallHandler ''run'' (Some artifactsPath)], Inl e)
      | Inr result \<Rightarrow>
          (case validateActionOutputs env action ''runtime'' (outputs result) of
             Some e \<Rightarrow>
               ([SubscribeLog, CallHandler ''run'' (Some artifactsPath),
                 ValidateActionOutputs ''runtime'' (outputs result)], Inl e)
           | None \<Rightarrow>
               ([SubscribeLog, CallHandler ''run'' (Some artifactsPath),
                 ValidateActionOutputs ''runtime'' (outputs result),
                 Emit evName (statusPayload action (Some (uuidv4 env)) (runStatus env (detail result))),
                 EmitNamespaceEvent (case detail result of None \<Rightarrow> None | Some d \<Rightarrow> namespaceStatus d)],
                Inr result)))"

text \<open>
  The \<^verbatim>\<open>finally\<close> block: \<^verbatim>\<open>try { copyArtifacts } finally { tmpDir.cleanup() }\<close>.
  The cleanup runs whether or not the copy throws; an error of the cleanup replaces an
  error of the copy.
\<close>

definition run_finally ::
  "string \<Rightarrow> RouterEnv \<Rightarrow> Action \<Rightarrow> string \<Rightarrow> string \<Rightarrow> effect list \<times> err option" where
  "run_finally keyKind env action artifactsPath tmpPath =
     (let key = getArtifactKey env keyKind (name action) (versionString action);
          copied = copyArtifacts env artifactsPath key;
          cleaned = tmp_cleanup env tmpPath
      in ([CopyArtifacts artifactsPath key, TmpCleanup tmpPath],
          case cleaned of Some e \<Rightarrow> Some e | None \<Rightarrow> copied))"

text \<open>
  \<^verbatim>\<open>try { body } finally { fin }\<close>: an error of the \<^verbatim>\<open>finally\<close> block replaces the
  outcome of the body.
\<close>

definition try_finally ::
  "effect list \<times> (err + 'a) \<Rightarrow> effect list \<times> err option \<Rightarrow> effect list \<times> (err + 'a)" where
  "try_finally body fin =
     (fst body @ fst fin, case snd fin of Some e \<Rightarrow> Inl e | None \<Rightarrow> snd body)"

text \<open>\<^verbatim>\<open>runRouter.run\<close> (\<^verbatim>\<open>router/run.ts\<close>).\<close>

definition runRouter_run :: "RouterEnv \<Rightarrow> Action \<Rightarrow> effect list \<times> (err + GetRunResult)" where
  "runRouter_run env action =
     (case tmp_dir env of
        Inl e \<Rightarrow> ([], Inl e)
      | Inr tmpPath \<Rightarrow>
          (case realpath env tmpPath of
             Inl e \<Rightarrow> ([], Inl e)
           | Inr rp \<Rightarrow>
               (let artifactsPath = normalizePath env rp;
                    rest = try_finally (run_try_body ''taskStatus'' env action artifactsPath)
                             (run_finally ''run'' env action artifactsPath tmpPath)
                in (Emit ''taskStatus'' (statusPayload action (Some (uuidv4 env)) (runningStatus env))
                      # fst rest, snd rest))))"

text \<open>\<^verbatim>\<open>testRouter.run\<close> (\<^verbatim>\<open>router/test.ts\<close>): the same shape, with the
  \<^verbatim>\<open>testStatus\<close> event and the artifact key of kind \<^verbatim>\<open>test\<close>.\<close>

definition testRouter_run :: "RouterEnv \<Rightarrow> Action \<Rightarrow> effect list \<times> (err + GetRunResult)" where
  "testRouter_run env action =
     (case tmp_dir env of
        Inl e \<Rightarrow> ([], Inl e)
      | Inr tmpPath \<Rightarrow>
          (case realpath env tmpPath of
             Inl e \<Rightarrow> ([], Inl e)
           | Inr rp \<Rightarrow>
               (let artifactsPath = normalizePath env rp;
                    rest = try_finally (run_try_body ''testStatus'' env action artifactsPath)
                             (run_finally ''test'' env action artifactsPath tmpPath)
                in (Emit ''testStatus'' (statusPayload action (Some (uuidv4 env)) (runningStatus env))
                      # fst rest, snd rest))))"





section \<open>Tasks\<close>

text \<open>
  The effects of a task method: the calls it makes to the action router and to the build
  staging area, and what it writes to its log. \<open>RouterCall\<close> names the router method
  (\<^verbatim>\<open>run.getResult\<close>, \<^verbatim>\<open>run.run\<close>, \<^verbatim>\<open>test.getResult\<close>, \<^verbatim>\<open>test.run\<close>,
  \<^verbatim>\<open>build.getStatus\<close>, \<^verbatim>\<open>build.build\<close>, \<^verbatim>\<open>build.publish\<close>). Log messages
  are given without their colours, and without the parts interpolated into them (the
  duration, the description and the version of the action, the number of files).
\<close>

datatype task_effect =
    LogMessage string
  | LogSetSuccess
  | LogSetError "string option"
  | LogSetWarn string
  | RouterCall string
  | SyncFromSrc
  | SyncDependencyProducts
  | ResolveProviders
  | ResolveTemplateString string

text \<open>
  The result of a task: \<^verbatim>\<open>{ ...status, executedAction }\<close>, here the pair of the
  status and the executed action. \<open>getResolvedAction\<close> and \<open>executeAction\<close> belong to
  the task base class and the action helpers; they are parameters, and so is each router
  method a task calls. \<open>getResolvedAction\<close> may throw.
\<close>

subsection \<open>RunTask (\<^verbatim>\<open>tasks/run.ts\<close>)\<close>

definition RunTask_getStatus ::
  "(Action \<Rightarrow> err + GetRunResult) \<Rightarrow> (Action \<Rightarrow> 'deps \<Rightarrow> err + Action) \<Rightarrow>
   (Action \<Rightarrow> GetRunResult \<Rightarrow> 'x) \<Rightarrow> Action \<Rightarrow> 'deps \<Rightarrow>
   task_effect list \<times> (err + (GetRunResult \<times> 'x) option)" where
  "RunTask_getStatus router_run_getResult getResolvedAction executeAction this_action dependencyResults =
     (case getResolvedAction this_action dependencyResults of
        Inl e \<Rightarrow> ([LogMessage ''Checking result...''], Inl e)
      | Inr action \<Rightarrow>
          (case router_run_getResult action of
             Inl e \<Rightarrow>
               ([LogMessage ''Checking result...'', RouterCall ''run.getResult'', LogSetError None],
                Inl e)
           | Inr status \<Rightarrow>
               ([LogMessage ''Checking result...'', RouterCall ''run.getResult'', LogSetSuccess],
                if detail status = None then Inr None
                else Inr (Some (status, executeAction action status)))))"

definition RunTask_process ::
  "(Action \<Rightarrow> err + GetRunResult) \<Rightarrow> (Action \<Rightarrow> 'deps \<Rightarrow> err + Action) \<Rightarrow>
   (Action \<Rightarrow> GetRunResult \<Rightarrow> 'x) \<Rightarrow> Action \<Rightarrow> 'deps \<Rightarrow>
   task_effect list \<times> (err + GetRunResult \<times> 'x)" where
  "RunTask_process router_run_run getResolvedAction executeAction this_action dependencyResults =
     (case getResolvedAction this_action dependencyResults of
        Inl e \<Rightarrow> ([], Inl e)
      | Inr action \<Rightarrow>
          (case router_run_run action of
             Inl e \<Rightarrow> ([LogMessage ''Running...'', RouterCall ''run.run'', LogSetError None], Inl e)
           | Inr status \<Rightarrow>
               if state status = ''ready''
               then ([LogMessage ''Running...'', RouterCall ''run.run'', LogSetSuccess],
                     Inr (status, executeAction action status))
               else ([LogMessage ''Running...'', RouterCall ''run.run'', LogSetError (Some ''Failed!'')],
                     Inl (RunTaskError (case detail status of None \<Rightarrow> None | Some d \<Rightarrow> Some (log d))))))"

subsection \<open>TestTask (\<^verbatim>\<open>tasks/test.ts\<close>)\<close>


text \<open>The message of the failed test: \<^verbatim>\<open>!!exitCode\<close> is false for a missing exit code
  and for the exit code 0.\<close>

fun showNat :: "nat \<Rightarrow> string" where
  "showNat n =
     (if n < 10 then [char_of (48 + n)] else showNat (n div 10) @ [char_of (48 + n mod 10)])"

declare showNat.simps [simp del]

definition showInt :: "int \<Rightarrow> string" where
  "showInt i = (if i < 0 then CHR ''-'' # showNat (nat (- i)) else showNat (nat i))"

definition failedMsg :: "int option \<Rightarrow> string" where
  "failedMsg code =
     (case code of
        None \<Rightarrow> ''Failed!''
      | Some c \<Rightarrow> if c = 0 then ''Failed!'' else ''Failed with code '' @ showInt c @ ''!'')"

definition TestTask_process ::
  "(Action \<Rightarrow> err + GetRunResult) \<Rightarrow> (Action \<Rightarrow> 'deps \<Rightarrow> err + Action) \<Rightarrow>
   (Action \<Rightarrow> GetRunResult \<Rightarrow> 'x) \<Rightarrow> Action \<Rightarrow> 'deps \<Rightarrow>
   task_effect list \<times> (err + GetRunResult \<times> 'x)" where
  "TestTask_process router_test_run getResolvedAction executeAction this_action dependencyResults =
     (case getResolvedAction this_action dependencyResults of
        Inl e \<Rightarrow> ([], Inl e)
      | Inr action \<Rightarrow>
          (case router_test_run action of
             Inl e \<Rightarrow> ([LogMessage ''Running...'', RouterCall ''test.run'', LogSetError None], Inl e)
           | Inr status \<Rightarrow>
               if (case detail status of None \<Rightarrow> False | Some d \<Rightarrow> success d)
               then ([LogMessage ''Running...'', RouterCall ''test.run'', LogSetSuccess],
                     Inr (status, executeAction action status))
               else ([LogMessage ''Running...'', RouterCall ''test.run'',
                      LogSetError (Some (failedMsg (case detail status of None \<Rightarrow> None | Some d \<Rightarrow> exitCode d)))],
                     Inl (TestError (case detail status of None \<Rightarrow> None | Some d \<Rightarrow> Some (log d))))))"

subsection \<open>BuildTask (\<^verbatim>\<open>tasks/build.ts\<close>)\<close>

text \<open>The class fields \<^verbatim>\<open>type = "build"\<close> and \<^verbatim>\<open>concurrencyLimit = 5\<close>.\<close>

definition BuildTask_type :: string where
  "BuildTask_type = ''build''"

definition BuildTask_concurrencyLimit :: nat where
  "BuildTask_concurrencyLimit = 5"


text \<open>
  The log lines of \<^verbatim>\<open>process\<close> before the sources are synchronised: the note on a
  disabled action, the version being built, the number of files when there are any.
\<close>

definition build_prelude :: "Action \<Rightarrow> task_effect list" where
  "build_prelude action =
     (if isDisabled action then [LogMessage ''is disabled, but is being executed because another action depends on it.''] else [])
     @ [LogMessage ''Building version...'']
     @ (if length (versionFiles action) > 0 then [LogMessage ''Syncing module sources...''] else [])"

definition BuildTask_process ::
  "(Action \<Rightarrow> err + 'b ActionStatus) \<Rightarrow> (Action \<Rightarrow> err option) \<Rightarrow> (Action \<Rightarrow> err option) \<Rightarrow>
   (Action \<Rightarrow> 'deps \<Rightarrow> err + Action) \<Rightarrow> (Action \<Rightarrow> 'b ActionStatus \<Rightarrow> 'x) \<Rightarrow> Action \<Rightarrow> 'deps \<Rightarrow>
   task_effect list \<times> (err + 'b ActionStatus \<times> 'x)" where
  "BuildTask_process router_build_build syncFromSrc syncDependencyProducts
       getResolvedAction executeAction this_action dependencyResults =
     (case getResolvedAction this_action dependencyResults of
        Inl e \<Rightarrow> ([], Inl e)
      | Inr action \<Rightarrow>
          (case syncFromSrc action of
             Some e \<Rightarrow> (build_prelude action @ [SyncFromSrc], Inl e)
           | None \<Rightarrow>
               (case syncDependencyProducts action of
                  Some e \<Rightarrow>
                    (build_prelude action @ [SyncFromSrc, LogSetSuccess, SyncDependencyProducts], Inl e)
                | None \<Rightarrow>
                    (case router_build_build action of
                       Inl e \<Rightarrow>
                         (build_prelude action @ [SyncFromSrc, LogSetSuccess, SyncDependencyProducts,
                            RouterCall ''build.build'', LogSetError None], Inl e)
                     | Inr result \<Rightarrow>
                         (build_prelude action @ [SyncFromSrc, LogSetSuccess, SyncDependencyProducts,
                            RouterCall ''build.build'', LogSetSuccess],
                          Inr (result, executeAction action result))))))"

subsection \<open>PublishTask (\<^verbatim>\<open>tasks/publish.ts\<close>)\<close>

text \<open>
  The tasks a task can declare upstream. A \<open>BuildTask\<close> is built from the base
  dependency parameters, the action and the \<^verbatim>\<open>force\<close> flag; the parameters of the
  other classes are their base parameters and their action.
\<close>

datatype 'p Task =
    BuildTask 'p Action bool
  | RunTask 'p Action
  | TestTask 'p Action
  | PublishTask 'p Action "string option"

text \<open>The class fields \<^verbatim>\<open>type = "publish"\<close> and \<^verbatim>\<open>concurrencyLimit = 5\<close>.\<close>

definition PublishTask_type :: string where
  "PublishTask_type = ''publish''"

definition PublishTask_concurrencyLimit :: nat where
  "PublishTask_concurrencyLimit = 5"

text \<open>
  \<^verbatim>\<open>resolveProcessDependencies\<close>. \<open>matchesRef\<close> (of the action base class) is a
  parameter; \<^verbatim>\<open>!!forceActions.find(...)\<close> is true when some reference matches.
\<close>

definition PublishTask_resolveProcessDependencies ::
  "(Action \<Rightarrow> 'ref \<Rightarrow> bool) \<Rightarrow> 'p \<Rightarrow> 'ref list \<Rightarrow> Action \<Rightarrow> 'p Task list" where
  "PublishTask_resolveProcessDependencies matchesRef baseDependencyParams forceActions this_action =
     (if allowPublish this_action = Some False then []
      else [BuildTask baseDependencyParams this_action
              (find (\<lambda>ref. matchesRef this_action ref) forceActions \<noteq> None)])"


record PublishResult =
  published :: bool
  message :: "string option"

type_synonym PublishActionResult = "PublishResult ActionStatus"

text \<open>
  The tag of \<^verbatim>\<open>process\<close>: undefined unless the tag template is a non-empty string;
  then the providers are resolved and the template is resolved to a string. Both steps
  may throw.
\<close>

definition publish_tag ::
  "err option \<Rightarrow> (string \<Rightarrow> Action \<Rightarrow> err + string) \<Rightarrow> string option \<Rightarrow> Action \<Rightarrow>
   task_effect list \<times> (err + string option)" where
  "publish_tag resolveProviders resolveTemplateString tagTemplate action =
     (case tagTemplate of
        None \<Rightarrow> ([], Inr None)
      | Some t \<Rightarrow>
          if t = [] then ([], Inr None)
          else (case resolveProviders of
                  Some e \<Rightarrow> ([ResolveProviders], Inl e)
                | None \<Rightarrow>
                    (case resolveTemplateString t action of
                       Inl e \<Rightarrow> ([ResolveProviders, ResolveTemplateString t], Inl e)
                     | Inr tag \<Rightarrow> ([ResolveProviders, ResolveTemplateString t], Inr (Some tag)))))"

definition publish_result_log :: "PublishActionResult \<Rightarrow> task_effect list" where
  "publish_result_log result =
     (case detail result of
        None \<Rightarrow> []
      | Some d \<Rightarrow>
          if published d then [LogSetSuccess]
          else (case message d of
                  None \<Rightarrow> []
                | Some m \<Rightarrow> if m = [] then [] else [LogSetWarn m]))"

definition PublishTask_process ::
  "(Action \<Rightarrow> string option \<Rightarrow> err + PublishActionResult) \<Rightarrow> err option \<Rightarrow>
   (string \<Rightarrow> Action \<Rightarrow> err + string) \<Rightarrow> (Action \<Rightarrow> 'deps \<Rightarrow> err + Action) \<Rightarrow>
   string option \<Rightarrow> Action \<Rightarrow> 'deps \<Rightarrow> task_effect list \<times> (err + PublishActionResult)" where
  "PublishTask_process router_build_publish resolveProviders resolveTemplateString
       getExecutedAction tagTemplate this_action dependencyResults =
     (if allowPublish this_action = Some False
      then ([LogMessage ''Publishing disabled (allowPublish=false set on build)''],
            Inr \<lparr> state = ''ready'', detail = Some \<lparr> published = False, message = None \<rparr>,
                  outputs = [] \<rparr>)
      else
        (case getExecutedAction this_action dependencyResults of
           Inl e \<Rightarrow> ([], Inl e)
         | Inr action \<Rightarrow>
             (case publish_tag resolveProviders resolveTemplateString tagTemplate action of
                (tr, Inl e) \<Rightarrow> (tr, Inl e)
              | (tr, Inr tag) \<Rightarrow>
                  (case router_build_publish action tag of
                     Inl e \<Rightarrow>
                       (tr @ [LogMessage (''Publishing with tag '' @ (case tag of None \<Rightarrow> ''undefined'' | Some t \<Rightarrow> t)),
                              RouterCall ''build.publish'', LogSetError None], Inl e)
                   | Inr result \<Rightarrow>
                       (tr @ [LogMessage (''Publishing with tag '' @ (case tag of None \<Rightarrow> ''undefined'' | Some t \<Rightarrow> t)),
                              RouterCall ''build.publish''] @ publish_result_log result,
                        Inr result)))))"

section \<open>Validation of action outputs\<close>

text \<open>The type a declared output key must have.\<close>

datatype ptype = TString | TNumber | TBoolean

fun typeName :: "ptype \<Rightarrow> string" where
  "typeName TString = ''string''"
| "typeName TNumber = ''number''"
| "typeName TBoolean = ''boolean''"

fun hasType :: "prim \<Rightarrow> ptype \<Rightarrow> bool" where
  "hasType (Str s) TString = True"
| "hasType (Num n) TNumber = True"
| "hasType (Bool b) TBoolean = True"
| "hasType v t = False"

text \<open>The first declared key, in the order of the schema, that the outputs bind to a
  value of another type.\<close>

fun firstInvalid :: "(string \<times> ptype) list \<Rightarrow> outputs_t \<Rightarrow> (string \<times> ptype) option" where
  "firstInvalid [] outs = None"
| "firstInvalid ((k, t) # schema) outs =
     (case map_of outs k of
        None \<Rightarrow> firstInvalid schema outs
      | Some v \<Rightarrow> if hasType v t then firstInvalid schema outs else Some (k, t))"

definition validationMessage :: "string \<Rightarrow> Action \<Rightarrow> string \<Rightarrow> ptype \<Rightarrow> string" where
  "validationMessage phase action k t =
     ''Error validating '' @ phase @ '' action outputs from '' @ kind action @ '' ''
       @ [CHR 0x27] @ name action @ [CHR 0x27] @ '': key .'' @ k @ '' must be a '' @ typeName t @ ''.''"

text \<open>
  Modelled from the spec: \<^verbatim>\<open>validateActionOutputs\<close> of the router base class
  (\<^verbatim>\<open>router/base.ts\<close>), which is not among the sources. The specification gives its
  contract, \<^verbatim>\<open>validateOutputs(action, phase, outputs) -> ValidatedOutputs | throws\<close>,
  for outputs that do not match the schema the action declares; the router unit tests
  give the message of the error,
  \<^verbatim>\<open>Error validating runtime action outputs from Deploy 'service-a': key .foo must be a string.\<close>
  The schema is the list of the declared keys with their types; the error is thrown for
  the first declared key bound to a value of another type.
\<close>

definition validateActionOutputs_spec ::
  "(string \<times> ptype) list \<Rightarrow> Action \<Rightarrow> string \<Rightarrow> outputs_t \<Rightarrow> err option" where
  "validateActionOutputs_spec schema action phase outs =
     (case firstInvalid schema outs of
        None \<Rightarrow> None
      | Some (k, t) \<Rightarrow> Some (PluginError (validationMessage phase action k t)))"

section \<open>Reading a trace\<close>

text \<open>The status events of a trace, and the status events that follow the call of the
  plugin handler.\<close>

fun statusEvents :: "effect list \<Rightarrow> StatusPayload list" where
  "statusEvents [] = []"
| "statusEvents (Emit ev p # tr) = p # statusEvents tr"
| "statusEvents (e # tr) = statusEvents tr"

fun afterHandler :: "effect list \<Rightarrow> effect list" where
  "afterHandler [] = []"
| "afterHandler (CallHandler h p # tr) = tr"
| "afterHandler (e # tr) = afterHandler tr"

fun isCallHandler :: "effect \<Rightarrow> bool" where
  "isCallHandler (CallHandler h p) = True"
| "isCallHandler e = False"

fun isRouterCall :: "task_effect \<Rightarrow> bool" where
  "isRouterCall (RouterCall m) = True"
| "isRouterCall e = False"

section \<open>Scheduling by task type\<close>

text \<open>The \<^verbatim>\<open>type\<close> field of each task class, and its \<^verbatim>\<open>concurrencyLimit\<close>: BuildTask
  and PublishTask declare their own; RunTask and TestTask inherit the one of the base
  task class, a parameter here.\<close>

fun task_type :: "'p Task \<Rightarrow> string" where
  "task_type (BuildTask p a f) = BuildTask_type"
| "task_type (RunTask p a) = ''run''"
| "task_type (TestTask p a) = ''test''"
| "task_type (PublishTask p a t) = PublishTask_type"

fun task_concurrencyLimit :: "nat \<Rightarrow> 'p Task \<Rightarrow> nat" where
  "task_concurrencyLimit dflt (BuildTask p a f) = BuildTask_concurrencyLimit"
| "task_concurrencyLimit dflt (PublishTask p a t) = PublishTask_concurrencyLimit"
| "task_concurrencyLimit dflt t = dflt"

record 'p SchedState =
  pending :: "'p Task list"
  inProgress :: "'p Task list"
  completed :: "'p Task list"

datatype 'p sched_event = Start "'p Task" | Finish "'p Task"

definition inProcessOfType :: "'p SchedState \<Rightarrow> string \<Rightarrow> 'p Task list" where
  "inProcessOfType st ty = filter (\<lambda>t. task_type t = ty) (inProgress st)"

text \<open>
  Modelled from the spec: the scheduler (graph processor), which is not among the
  sources. In the words of the specification, a task may only start once all of its
  dependency tasks have completed; independent tasks may run concurrently, bounded by a
  per-task-type concurrency limit and by a global ceiling; the limits are enforced per
  task type. A task is inside \<^verbatim>\<open>process\<close> from its start to its finish. The limit of a
  type is the \<^verbatim>\<open>concurrencyLimit\<close> its task class declares.
\<close>

definition canStart ::
  "nat \<Rightarrow> nat \<Rightarrow> ('p Task \<Rightarrow> 'p Task list) \<Rightarrow> 'p SchedState \<Rightarrow> 'p Task \<Rightarrow> bool" where
  "canStart dflt ceiling depsOf st t =
     (t \<in> set (pending st) \<and> set (depsOf t) \<subseteq> set (completed st)
      \<and> length (inProcessOfType st (task_type t)) < task_concurrencyLimit dflt t
      \<and> length (inProgress st) < ceiling)"

fun sched_step ::
  "nat \<Rightarrow> nat \<Rightarrow> ('p Task \<Rightarrow> 'p Task list) \<Rightarrow> 'p SchedState \<Rightarrow> 'p sched_event \<Rightarrow> 'p SchedState option" where
  "sched_step dflt ceiling depsOf st (Start t) =
     (if canStart dflt ceiling depsOf st t
      then Some (st \<lparr> pending := remove1 t (pending st), inProgress := t # inProgress st \<rparr>)
      else None)"
| "sched_step dflt ceiling depsOf st (Finish t) =
     (if t \<in> set (inProgress st)
      then Some (st \<lparr> inProgress := remove1 t (inProgress st), completed := t # completed st \<rparr>)
      else None)"

fun sched_run ::
  "nat \<Rightarrow> nat \<Rightarrow> ('p Task \<Rightarrow> 'p Task list) \<Rightarrow> 'p SchedState \<Rightarrow> 'p sched_event list \<Rightarrow> 'p SchedState option" where
  "sched_run dflt ceiling depsOf st [] = Some st"
| "sched_run dflt ceiling depsOf st (ev # evs) =
     (case sched_step dflt ceiling depsOf st ev of
        None \<Rightarrow> None
      | Some st' \<Rightarrow> sched_run dflt ceiling depsOf st' evs)"

definition sched_init :: "'p Task list \<Rightarrow> 'p SchedState" where
  "sched_init tasks = \<lparr> pending = tasks, inProgress = [], completed = [] \<rparr>"

section \<open>Concrete inputs\<close>

text \<open>A build action that may be published and one whose configuration forbids it.\<close>

definition buildA :: Action where
  "buildA = \<lparr> kind = ''Build'', name = ''module-a'', versionString = ''v-6f85bdd407'',
     moduleName = ''module-a'', moduleVersion = ''v-6f85bdd407'', allowPublish = None,
     isDisabled = False, versionFiles = [''Dockerfile''] \<rparr>"

definition buildNoPublish :: Action where
  "buildNoPublish = buildA \<lparr> allowPublish := Some False \<rparr>"

text \<open>An action reference is a kind and a name; an action matches it when both agree.\<close>

definition refMatches :: "Action \<Rightarrow> string \<times> string \<Rightarrow> bool" where
  "refMatches a ref = (kind a = fst ref \<and> name a = snd ref)"

text \<open>A publish handler that reports a published image, whatever the tag.\<close>

definition publishOk :: "Action \<Rightarrow> string option \<Rightarrow> err + PublishActionResult" where
  "publishOk a tag =
     Inr \<lparr> state = ''ready'', detail = Some \<lparr> published = True, message = None \<rparr>, outputs = [] \<rparr>"


text \<open>A run action, a successful result of its handler, and a result whose output
  \<open>log\<close> is a number where the schema declares a string.\<close>

definition runA :: Action where
  "runA = \<lparr> kind = ''Run'', name = ''task-a'', versionString = ''v-1234abcd'',
     moduleName = ''module-a'', moduleVersion = ''v-99aa'', allowPublish = None,
     isDisabled = False, versionFiles = [] \<rparr>"

definition okDetail :: RunResult where
  "okDetail = \<lparr> success = True, exitCode = Some 0, log = ''done'', namespaceStatus = None \<rparr>"

definition failedDetail :: RunResult where
  "failedDetail = \<lparr> success = False, exitCode = Some 1, log = ''exit 1'', namespaceStatus = None \<rparr>"

definition okResult :: GetRunResult where
  "okResult = \<lparr> state = ''ready'', detail = Some okDetail, outputs = [(''log'', Str ''done'')] \<rparr>"

definition failedResult :: GetRunResult where
  "failedResult = \<lparr> state = ''not-ready'', detail = Some failedDetail, outputs = [(''log'', Str ''exit 1'')] \<rparr>"

definition badOutputsResult :: GetRunResult where
  "badOutputsResult = \<lparr> state = ''ready'', detail = Some okDetail, outputs = [(''log'', Num 1)] \<rparr>"

definition runSchema :: "(string \<times> ptype) list" where
  "runSchema = [(''log'', TString)]"

definition exampleRunStatus :: "RunResult option \<Rightarrow> RunStatusForEventPayload" where
  "exampleRunStatus d =
     (case d of
        None \<Rightarrow> \<lparr> ev_state = ''not-implemented'', startedAt = None, completedAt = None \<rparr>
      | Some r \<Rightarrow> \<lparr> ev_state = (if success r then ''succeeded'' else ''failed''),
                    startedAt = None, completedAt = None \<rparr>)"

text \<open>Collaborators that all succeed, a handler that throws, and a handler that returns
  the outputs of the wrong type.\<close>

definition envOk :: RouterEnv where
  "envOk = \<lparr> uuidv4 = ''uid-1'', now = 7, tmp_dir = Inr ''/tmp/garden-1'',
     realpath = (\<lambda>p. Inr p), normalizePath = (\<lambda>p. p),
     handler_run = (\<lambda>a p. Inr okResult), handler_getResult = None,
     validateActionOutputs = validateActionOutputs_spec runSchema,
     runStatus = exampleRunStatus,
     getArtifactKey = (\<lambda>k n v. k @ ''.'' @ n @ ''.'' @ v),
     copyArtifacts = (\<lambda>p k. None), tmp_cleanup = (\<lambda>p. None) \<rparr>"

definition envThrows :: RouterEnv where
  "envThrows = envOk \<lparr> handler_run := (\<lambda>a p. Inl (Thrown ''command failed'')) \<rparr>"

definition envBadOutputs :: RouterEnv where
  "envBadOutputs = envOk \<lparr> handler_run := (\<lambda>a p. Inr badOutputsResult),
     handler_getResult := Some (\<lambda>a. Inr badOutputsResult) \<rparr>"


text \<open>Six build tasks on the same action, told apart by their parameters, with no
  dependencies among them.\<close>

definition sixBuilds :: "nat Task list" where
  "sixBuilds = [BuildTask 1 buildA False, BuildTask 2 buildA False, BuildTask 3 buildA False,
     BuildTask 4 buildA False, BuildTask 5 buildA False, BuildTask 6 buildA False]"

definition noDeps :: "nat Task \<Rightarrow> nat Task list" where
  "noDeps t = []"

text \<open>The state after the first five of them were started.\<close>

definition fiveInProcess :: "nat SchedState" where
  "fiveInProcess = \<lparr> pending = [BuildTask 6 buildA False],
     inProgress = [BuildTask 5 buildA False, BuildTask 4 buildA False, BuildTask 3 buildA False,
                   BuildTask 2 buildA False, BuildTask 1 buildA False],
     completed = [] \<rparr>"

text \<open>A handler that returns a failed run with outputs of the declared type; a failed
  run with outputs of the wrong type; an artifact store that throws; a validator that
  rejects empty outputs, as a schema with a required key does.\<close>

definition notReadyBadResult :: GetRunResult where
  "notReadyBadResult = \<lparr> state = ''not-ready'', detail = Some failedDetail, outputs = [(''log'', Num 1)] \<rparr>"

definition envNotReady :: RouterEnv where
  "envNotReady = envOk \<lparr> handler_run := (\<lambda>a p. Inr failedResult) \<rparr>"

definition envNotReadyBad :: RouterEnv where
  "envNotReadyBad = envOk \<lparr> handler_run := (\<lambda>a p. Inr notReadyBadResult) \<rparr>"

definition envCopyFails :: RouterEnv where
  "envCopyFails = envThrows \<lparr> copyArtifacts := (\<lambda>p k. Some (Thrown ''copy failed'')) \<rparr>"


text \<open>Two results of the build router: a build that failed, and the status of a build
  that is not there yet.\<close>

definition failedBuild :: "unit ActionStatus" where
  "failedBuild = \<lparr> state = ''failed'', detail = Some (), outputs = [] \<rparr>"


section \<open>Properties\<close>

subsection \<open>PublishTask\<close>

lemma find_not_None: "(find P xs \<noteq> None) = (\<exists>x\<in>set xs. P x)"
  by (induction xs) auto

lemma find_is_Some: "(\<exists>y. find P xs = Some y) = (\<exists>x\<in>set xs. P x)"
  using find_not_None [of P xs] by simp

text \<open>
  C6. A PublishTask whose action does not set \<^verbatim>\<open>allowPublish\<close> to false declares
  exactly one upstream task in \<^verbatim>\<open>resolveProcessDependencies\<close>: a BuildTask on the
  same action, with the base dependency parameters, whose \<^verbatim>\<open>force\<close> flag is set
  exactly when the action matches one of the force-action references. Whatever the
  configuration, the method declares nothing but such a BuildTask, and at most one.
\<close>

theorem publish_dependencies_single_build:
  "(allowPublish a \<noteq> Some False \<longrightarrow>
      PublishTask_resolveProcessDependencies matchesRef params forceActions a =
        [BuildTask params a (\<exists>ref\<in>set forceActions. matchesRef a ref)])
   \<and> length (PublishTask_resolveProcessDependencies matchesRef params forceActions a) \<le> 1
   \<and> set (PublishTask_resolveProcessDependencies matchesRef params forceActions a)
        \<subseteq> {BuildTask params a (\<exists>ref\<in>set forceActions. matchesRef a ref)}"
  by (simp add: PublishTask_resolveProcessDependencies_def find_is_Some)

theorem publish_dependencies_single_build_witness:
  "allowPublish buildA \<noteq> Some False
   \<and> PublishTask_resolveProcessDependencies refMatches () [(''Build'', ''module-a'')] buildA =
       [BuildTask () buildA True]
   \<and> PublishTask_resolveProcessDependencies refMatches () [(''Deploy'', ''module-a'')] buildA =
       [BuildTask () buildA False]"
proof -
  have h: "allowPublish buildA \<noteq> Some False"
    by (simp add: buildA_def)
  have m1: "(\<exists>ref\<in>set [(''Build'', ''module-a'')]. refMatches buildA ref) = True"
    by (simp add: refMatches_def buildA_def)
  have m2: "(\<exists>ref\<in>set [(''Deploy'', ''module-a'')]. refMatches buildA ref) = False"
    by (simp add: refMatches_def buildA_def)
  have "PublishTask_resolveProcessDependencies refMatches () [(''Build'', ''module-a'')] buildA =
       [BuildTask () buildA True]"
    using h publish_dependencies_single_build [of buildA refMatches "()" "[(''Build'', ''module-a'')]"]
    unfolding m1 by blast
  moreover have "PublishTask_resolveProcessDependencies refMatches () [(''Deploy'', ''module-a'')] buildA =
       [BuildTask () buildA False]"
    using h publish_dependencies_single_build [of buildA refMatches "()" "[(''Deploy'', ''module-a'')]"]
    unfolding m2 by blast
  ultimately show ?thesis
    using h by blast
qed

text \<open>
  C9. When the configuration of the build action sets \<^verbatim>\<open>allowPublish\<close> to false,
  \<^verbatim>\<open>resolveProcessDependencies\<close> returns the empty list, and \<^verbatim>\<open>process\<close> returns
  the state ready with the detail \<^verbatim>\<open>{published: false}\<close> and empty outputs; its only
  effect is the log line, so the publish handler of the router is not called.
\<close>

theorem publish_disabled_skips_handler:
  assumes "allowPublish a = Some False"
  shows "PublishTask_resolveProcessDependencies matchesRef params forceActions a = []
    \<and> snd (PublishTask_process router_build_publish resolveProviders resolveTemplateString
              getExecutedAction tagTemplate a dependencyResults) =
        Inr \<lparr> state = ''ready'', detail = Some \<lparr> published = False, message = None \<rparr>, outputs = [] \<rparr>
    \<and> RouterCall ''build.publish'' \<notin>
        set (fst (PublishTask_process router_build_publish resolveProviders resolveTemplateString
              getExecutedAction tagTemplate a dependencyResults))"
  using assms
  by (simp add: PublishTask_resolveProcessDependencies_def PublishTask_process_def)


theorem publish_disabled_skips_handler_witness:
  "allowPublish buildNoPublish = Some False
   \<and> PublishTask_resolveProcessDependencies refMatches () [(''Build'', ''module-a'')] buildNoPublish = []
   \<and> snd (PublishTask_process publishOk None (\<lambda>t a. Inr t) (\<lambda>a d. Inr a) (Some ''v1'') buildNoPublish ()) =
        Inr \<lparr> state = ''ready'', detail = Some \<lparr> published = False, message = None \<rparr>, outputs = [] \<rparr>
   \<and> fst (PublishTask_process publishOk None (\<lambda>t a. Inr t) (\<lambda>a d. Inr a) (Some ''v1'') buildNoPublish ()) =
        [LogMessage ''Publishing disabled (allowPublish=false set on build)'']"
proof -
  have h: "allowPublish buildNoPublish = Some False"
    by (simp add: buildNoPublish_def)
  have p: "fst (PublishTask_process publishOk None (\<lambda>t a. Inr t) (\<lambda>a d. Inr a) (Some ''v1'') buildNoPublish ()) =
        [LogMessage ''Publishing disabled (allowPublish=false set on build)'']"
    by (simp add: PublishTask_process_def h)
  show ?thesis
    using h p publish_disabled_skips_handler [OF h, of refMatches "()" "[(''Build'', ''module-a'')]"
       publishOk None "\<lambda>t a. Inr t" "\<lambda>a d. Inr a" "Some ''v1''" "()"]
    by blast
qed

subsection \<open>Artifacts and the temporary directory\<close>

lemma try_body_calls_handler:
  "CallHandler ''run'' (Some ap) \<in> set (fst (run_try_body ev env a ap))"
  by (simp add: run_try_body_def split: sum.split option.split)

lemma try_body_no_copy:
  "CopyArtifacts p k \<notin> set (fst (run_try_body ev env a ap))
   \<and> TmpCleanup q \<notin> set (fst (run_try_body ev env a ap))"
  by (simp add: run_try_body_def split: sum.split option.split)

text \<open>
  C10. Every invocation of the \<^verbatim>\<open>run\<close> operation of the run router and of the test
  router that has created its temporary directory calls the plugin handler inside the
  \<^verbatim>\<open>try\<close> block and then, whatever the block did (the handler returned, the handler
  threw, the outputs failed validation), calls \<^verbatim>\<open>copyArtifacts\<close> on the artifacts
  path with the key \<^verbatim>\<open>getArtifactKey(kind, action.name, actionVersion)\<close> and after that
  cleans the temporary directory up; the cleanup does not depend on the outcome of the
  copy. Neither of the two happens earlier.
\<close>

theorem run_always_copies_artifacts_then_cleans_up:
  assumes "tmp_dir env = Inr tmpPath" and "realpath env tmpPath = Inr rp"
  shows "fst (runRouter_run env a) =
           Emit ''taskStatus'' (statusPayload a (Some (uuidv4 env)) (runningStatus env))
             # fst (run_try_body ''taskStatus'' env a (normalizePath env rp))
             @ [CopyArtifacts (normalizePath env rp) (getArtifactKey env ''run'' (name a) (versionString a)),
                TmpCleanup tmpPath]
       \<and> fst (testRouter_run env a) =
           Emit ''testStatus'' (statusPayload a (Some (uuidv4 env)) (runningStatus env))
             # fst (run_try_body ''testStatus'' env a (normalizePath env rp))
             @ [CopyArtifacts (normalizePath env rp) (getArtifactKey env ''test'' (name a) (versionString a)),
                TmpCleanup tmpPath]
       \<and> CallHandler ''run'' (Some (normalizePath env rp))
            \<in> set (fst (run_try_body ev env a (normalizePath env rp)))
       \<and> CopyArtifacts p k \<notin> set (fst (run_try_body ev env a (normalizePath env rp)))
       \<and> TmpCleanup q \<notin> set (fst (run_try_body ev env a (normalizePath env rp)))"
  using assms try_body_calls_handler [of "normalizePath env rp" ev env a]
    try_body_no_copy [of p k ev env a "normalizePath env rp" q]
  by (simp add: runRouter_run_def testRouter_run_def try_finally_def run_finally_def Let_def)

lemma runA_fields:
  "name runA = ''task-a''" "versionString runA = ''v-1234abcd''" "kind runA = ''Run''"
  "moduleName runA = ''module-a''" "moduleVersion runA = ''v-99aa''"
  by (simp_all add: runA_def)

lemma envThrows_simps:
  "tmp_dir envThrows = Inr ''/tmp/garden-1''" "realpath envThrows p = Inr p"
  "normalizePath envThrows p = p" "uuidv4 envThrows = ''uid-1''"
  "handler_run envThrows a p = Inl (Thrown ''command failed'')"
  "getArtifactKey envThrows k n v = k @ ''.'' @ n @ ''.'' @ v"
  by (simp_all add: envThrows_def envOk_def)

theorem run_always_copies_artifacts_then_cleans_up_witness:
  "tmp_dir envThrows = Inr ''/tmp/garden-1'' \<and> realpath envThrows ''/tmp/garden-1'' = Inr ''/tmp/garden-1''
   \<and> handler_run envThrows runA ''/tmp/garden-1'' = Inl (Thrown ''command failed'')
   \<and> fst (runRouter_run envThrows runA) =
       [Emit ''taskStatus'' (statusPayload runA (Some ''uid-1'') (runningStatus envThrows)),
        SubscribeLog, CallHandler ''run'' (Some ''/tmp/garden-1''),
        CopyArtifacts ''/tmp/garden-1'' ''run.task-a.v-1234abcd'', TmpCleanup ''/tmp/garden-1'']"
proof -
  have t: "tmp_dir envThrows = Inr ''/tmp/garden-1''"
    and r: "realpath envThrows ''/tmp/garden-1'' = Inr ''/tmp/garden-1''"
    by (simp_all add: envThrows_simps)
  have b: "fst (run_try_body ''taskStatus'' envThrows runA ''/tmp/garden-1'') =
      [SubscribeLog, CallHandler ''run'' (Some ''/tmp/garden-1'')]"
    by (simp add: run_try_body_def envThrows_simps)
  have "fst (runRouter_run envThrows runA) =
           Emit ''taskStatus'' (statusPayload runA (Some (uuidv4 envThrows)) (runningStatus envThrows))
             # fst (run_try_body ''taskStatus'' envThrows runA (normalizePath envThrows ''/tmp/garden-1''))
             @ [CopyArtifacts (normalizePath envThrows ''/tmp/garden-1'')
                  (getArtifactKey envThrows ''run'' (name runA) (versionString runA)),
                TmpCleanup ''/tmp/garden-1'']"
    using run_always_copies_artifacts_then_cleans_up [OF t r, of runA "''taskStatus''" "''x''" "''y''" "''z''"]
    by blast
  then have "fst (runRouter_run envThrows runA) =
       [Emit ''taskStatus'' (statusPayload runA (Some ''uid-1'') (runningStatus envThrows)),
        SubscribeLog, CallHandler ''run'' (Some ''/tmp/garden-1''),
        CopyArtifacts ''/tmp/garden-1'' ''run.task-a.v-1234abcd'', TmpCleanup ''/tmp/garden-1'']"
    by (simp add: b envThrows_simps runA_fields)
  then show ?thesis
    using t r by (simp add: envThrows_simps)
qed

subsection \<open>Status events\<close>

lemma statusPayload_fields:
  "actionUid (statusPayload a uid st) = uid" "actionVersion (statusPayload a uid st) = versionString a"
  "entityVersion (statusPayload a uid st) = versionString a" "pl_status (statusPayload a uid st) = st"
  "actionName (statusPayload a uid st) = name a"
  by (simp_all add: statusPayload_def)

lemma try_body_starts_with_handler:
  "take 2 (fst (run_try_body ev env a ap)) = [SubscribeLog, CallHandler ''run'' (Some ap)]"
  by (simp add: run_try_body_def split: sum.split option.split)

lemma try_body_validated:
  assumes "handler_run env a ap = Inr r" and "validateActionOutputs env a ''runtime'' (outputs r) = None"
  shows "run_try_body ev env a ap =
    ([SubscribeLog, CallHandler ''run'' (Some ap), ValidateActionOutputs ''runtime'' (outputs r),
      Emit ev (statusPayload a (Some (uuidv4 env)) (runStatus env (detail r))),
      EmitNamespaceEvent (case detail r of None \<Rightarrow> None | Some d \<Rightarrow> namespaceStatus d)],
     Inr r)"
  using assms by (simp add: run_try_body_def)

lemma run_trace_shape:
  assumes "tmp_dir env = Inr tmpPath" and "realpath env tmpPath = Inr rp"
  shows "fst (runRouter_run env a) =
           Emit ''taskStatus'' (statusPayload a (Some (uuidv4 env)) (runningStatus env))
             # fst (run_try_body ''taskStatus'' env a (normalizePath env rp))
             @ fst (run_finally ''run'' env a (normalizePath env rp) tmpPath)"
    and "fst (testRouter_run env a) =
           Emit ''testStatus'' (statusPayload a (Some (uuidv4 env)) (runningStatus env))
             # fst (run_try_body ''testStatus'' env a (normalizePath env rp))
             @ fst (run_finally ''test'' env a (normalizePath env rp) tmpPath)"
  using assms by (simp_all add: runRouter_run_def testRouter_run_def try_finally_def Let_def)

lemma finally_trace:
  "fst (run_finally k env a ap tmpPath) =
     [CopyArtifacts ap (getArtifactKey env k (name a) (versionString a)), TmpCleanup tmpPath]"
  by (simp add: run_finally_def Let_def)

text \<open>
  C8, as the code has it. Every invocation of the \<^verbatim>\<open>run\<close> operation of the run router
  and of the test router that has created its temporary directory emits the status
  event (\<^verbatim>\<open>taskStatus\<close>, \<^verbatim>\<open>testStatus\<close>) with the state running before it calls
  the plugin handler. When the handler returns and its outputs pass
  \<^verbatim>\<open>validateActionOutputs\<close>, exactly one more status event follows the call, carrying
  \<^verbatim>\<open>runStatus(result.detail)\<close>; both events carry the same \<open>actionUid\<close> and the
  version string of the action.
\<close>

theorem run_status_events_ordered:
  assumes "tmp_dir env = Inr tmpPath" and "realpath env tmpPath = Inr rp"
  shows "take 3 (fst (runRouter_run env a)) =
           [Emit ''taskStatus'' (statusPayload a (Some (uuidv4 env)) (runningStatus env)),
            SubscribeLog, CallHandler ''run'' (Some (normalizePath env rp))]
       \<and> take 3 (fst (testRouter_run env a)) =
           [Emit ''testStatus'' (statusPayload a (Some (uuidv4 env)) (runningStatus env)),
            SubscribeLog, CallHandler ''run'' (Some (normalizePath env rp))]
       \<and> ev_state (runningStatus env) = ''running''
       \<and> (handler_run env a (normalizePath env rp) = Inr r
            \<and> validateActionOutputs env a ''runtime'' (outputs r) = None \<longrightarrow>
            statusEvents (fst (runRouter_run env a)) =
              [statusPayload a (Some (uuidv4 env)) (runningStatus env),
               statusPayload a (Some (uuidv4 env)) (runStatus env (detail r))]
          \<and> statusEvents (afterHandler (fst (runRouter_run env a))) =
              [statusPayload a (Some (uuidv4 env)) (runStatus env (detail r))]
          \<and> statusEvents (fst (testRouter_run env a)) =
              [statusPayload a (Some (uuidv4 env)) (runningStatus env),
               statusPayload a (Some (uuidv4 env)) (runStatus env (detail r))]
          \<and> statusEvents (afterHandler (fst (testRouter_run env a))) =
              [statusPayload a (Some (uuidv4 env)) (runStatus env (detail r))]
          \<and> actionUid (statusPayload a (Some (uuidv4 env)) (runStatus env (detail r))) =
              actionUid (statusPayload a (Some (uuidv4 env)) (runningStatus env))
          \<and> actionVersion (statusPayload a (Some (uuidv4 env)) (runStatus env (detail r))) = versionString a
          \<and> actionVersion (statusPayload a (Some (uuidv4 env)) (runningStatus env)) = versionString a)"
proof -
  let ?ap = "normalizePath env rp"
  have pre: "take 3 (fst (runRouter_run env a)) =
           [Emit ''taskStatus'' (statusPayload a (Some (uuidv4 env)) (runningStatus env)),
            SubscribeLog, CallHandler ''run'' (Some ?ap)]"
    "take 3 (fst (testRouter_run env a)) =
           [Emit ''testStatus'' (statusPayload a (Some (uuidv4 env)) (runningStatus env)),
            SubscribeLog, CallHandler ''run'' (Some ?ap)]"
    using run_trace_shape [OF assms, of a] try_body_starts_with_handler [of _ env a ?ap]
    by (simp_all add: run_try_body_def split: sum.split option.split)
  have running: "ev_state (runningStatus env) = ''running''"
    by (simp add: runningStatus_def)
  have post: "statusEvents (fst (runRouter_run env a)) =
              [statusPayload a (Some (uuidv4 env)) (runningStatus env),
               statusPayload a (Some (uuidv4 env)) (runStatus env (detail r))]
          \<and> statusEvents (afterHandler (fst (runRouter_run env a))) =
              [statusPayload a (Some (uuidv4 env)) (runStatus env (detail r))]
          \<and> statusEvents (fst (testRouter_run env a)) =
              [statusPayload a (Some (uuidv4 env)) (runningStatus env),
               statusPayload a (Some (uuidv4 env)) (runStatus env (detail r))]
          \<and> statusEvents (afterHandler (fst (testRouter_run env a))) =
              [statusPayload a (Some (uuidv4 env)) (runStatus env (detail r))]"
    if h: "handler_run env a ?ap = Inr r" and v: "validateActionOutputs env a ''runtime'' (outputs r) = None"
    using run_trace_shape [OF assms, of a]
    by (simp add: try_body_validated [OF h v] finally_trace)
  show ?thesis
    using pre running post by (simp add: statusPayload_fields)
qed


lemma envOk_simps:
  "tmp_dir envOk = Inr ''/tmp/garden-1''" "realpath envOk p = Inr p"
  "normalizePath envOk p = p" "uuidv4 envOk = ''uid-1''"
  "handler_run envOk a p = Inr okResult" "handler_getResult envOk = None"
  "validateActionOutputs envOk = validateActionOutputs_spec runSchema"
  "runStatus envOk = exampleRunStatus"
  "getArtifactKey envOk k n v = k @ ''.'' @ n @ ''.'' @ v"
  "copyArtifacts envOk p k = None" "tmp_cleanup envOk p = None"
  by (simp_all add: envOk_def)

lemma envBadOutputs_simps:
  "tmp_dir envBadOutputs = Inr ''/tmp/garden-1''" "realpath envBadOutputs p = Inr p"
  "normalizePath envBadOutputs p = p" "uuidv4 envBadOutputs = ''uid-1''"
  "handler_run envBadOutputs a p = Inr badOutputsResult"
  "handler_getResult envBadOutputs = Some (\<lambda>a. Inr badOutputsResult)"
  "validateActionOutputs envBadOutputs = validateActionOutputs_spec runSchema"
  "runStatus envBadOutputs = exampleRunStatus"
  "getArtifactKey envBadOutputs k n v = k @ ''.'' @ n @ ''.'' @ v"
  "copyArtifacts envBadOutputs p k = None" "tmp_cleanup envBadOutputs p = None"
  by (simp_all add: envBadOutputs_def envOk_def)

lemma okResult_valid: "validateActionOutputs_spec runSchema a ''runtime'' (outputs okResult) = None"
  by (simp add: validateActionOutputs_spec_def runSchema_def okResult_def)

lemma badOutputs_invalid:
  "validateActionOutputs_spec runSchema a ''runtime'' (outputs badOutputsResult) =
     Some (PluginError (validationMessage ''runtime'' a ''log'' TString))"
  by (simp add: validateActionOutputs_spec_def runSchema_def badOutputsResult_def)

theorem run_status_events_ordered_witness:
  "tmp_dir envOk = Inr ''/tmp/garden-1'' \<and> realpath envOk ''/tmp/garden-1'' = Inr ''/tmp/garden-1''
   \<and> handler_run envOk runA ''/tmp/garden-1'' = Inr okResult
   \<and> validateActionOutputs envOk runA ''runtime'' (outputs okResult) = None
   \<and> statusEvents (fst (runRouter_run envOk runA)) =
       [statusPayload runA (Some ''uid-1'') \<lparr> ev_state = ''running'', startedAt = Some 7, completedAt = None \<rparr>,
        statusPayload runA (Some ''uid-1'') \<lparr> ev_state = ''succeeded'', startedAt = None, completedAt = None \<rparr>]"
proof -
  have t: "tmp_dir envOk = Inr ''/tmp/garden-1''"
    and r: "realpath envOk ''/tmp/garden-1'' = Inr ''/tmp/garden-1''"
    and h: "handler_run envOk runA (normalizePath envOk ''/tmp/garden-1'') = Inr okResult"
    and v: "validateActionOutputs envOk runA ''runtime'' (outputs okResult) = None"
    by (simp_all add: envOk_simps okResult_valid)
  have s1: "runningStatus envOk = \<lparr> ev_state = ''running'', startedAt = Some 7, completedAt = None \<rparr>"
    by (simp add: runningStatus_def envOk_def)
  have s2: "exampleRunStatus (detail okResult) = \<lparr> ev_state = ''succeeded'', startedAt = None, completedAt = None \<rparr>"
    by (simp add: exampleRunStatus_def okResult_def okDetail_def)
  have "statusEvents (fst (runRouter_run envOk runA)) =
              [statusPayload runA (Some (uuidv4 envOk)) (runningStatus envOk),
               statusPayload runA (Some (uuidv4 envOk)) (runStatus envOk (detail okResult))]"
    using h v run_status_events_ordered [OF t r, of runA okResult] by blast
  then show ?thesis
    using t r h v by (simp add: s1 s2 envOk_simps)
qed

theorem second_status_event_counterexample:
  "tmp_dir envBadOutputs = Inr ''/tmp/garden-1'' \<and> realpath envBadOutputs ''/tmp/garden-1'' = Inr ''/tmp/garden-1''
   \<and> handler_run envBadOutputs runA ''/tmp/garden-1'' = Inr badOutputsResult
   \<and> statusEvents (afterHandler (fst (runRouter_run envBadOutputs runA))) = []
   \<and> statusEvents (afterHandler (fst (testRouter_run envBadOutputs runA))) = []
   \<and> fst (runRouter_run envBadOutputs runA) =
       [Emit ''taskStatus'' (statusPayload runA (Some ''uid-1'') (runningStatus envBadOutputs)),
        SubscribeLog, CallHandler ''run'' (Some ''/tmp/garden-1''),
        ValidateActionOutputs ''runtime'' [(''log'', Num 1)],
        CopyArtifacts ''/tmp/garden-1'' ''run.task-a.v-1234abcd'', TmpCleanup ''/tmp/garden-1'']"
proof -
  have b: "run_try_body ev envBadOutputs runA ''/tmp/garden-1'' =
      ([SubscribeLog, CallHandler ''run'' (Some ''/tmp/garden-1''),
        ValidateActionOutputs ''runtime'' [(''log'', Num 1)]],
       Inl (PluginError (validationMessage ''runtime'' runA ''log'' TString)))" for ev
    using badOutputs_invalid [of runA]
    by (simp add: run_try_body_def envBadOutputs_simps badOutputsResult_def)
  have t: "tmp_dir envBadOutputs = Inr ''/tmp/garden-1''"
    and r: "realpath envBadOutputs ''/tmp/garden-1'' = Inr ''/tmp/garden-1''"
    by (simp_all add: envBadOutputs_simps)
  show ?thesis
    using run_trace_shape [OF t r, of runA]
    by (simp add: b finally_trace envBadOutputs_simps runA_fields)
qed

subsection \<open>Validation of the handler's outputs\<close>


lemma firstInvalid_None:
  "firstInvalid schema outs = None \<Longrightarrow> (k, t) \<in> set schema \<Longrightarrow> map_of outs k = Some v \<Longrightarrow> hasType v t"
  by (induction schema outs rule: firstInvalid.induct) (auto split: option.splits if_splits)

lemma try_body_result:
  "snd (run_try_body ev env a ap) = Inr r \<Longrightarrow>
     handler_run env a ap = Inr r \<and> validateActionOutputs env a ''runtime'' (outputs r) = None"
  by (auto simp: run_try_body_def split: sum.splits option.splits)


lemma try_finally_result:
  "snd (try_finally body fin) = Inr r \<Longrightarrow> snd body = Inr r"
  by (auto simp: try_finally_def split: option.splits)

lemma try_finally_error:
  "snd body = Inl e \<Longrightarrow> \<exists>e'. snd (try_finally body fin) = Inl e'"
  by (auto simp: try_finally_def split: option.splits)

lemma try_finally_same_error:
  "snd body = Inl e \<Longrightarrow> snd fin = None \<Longrightarrow> snd (try_finally body fin) = Inl e"
  by (auto simp: try_finally_def split: option.splits)

lemma run_result_validated:
  "snd (runRouter_run env a) = Inr r \<Longrightarrow>
     \<exists>ap. handler_run env a ap = Inr r \<and> validateActionOutputs env a ''runtime'' (outputs r) = None"
  unfolding runRouter_run_def
  by (auto simp: Let_def split: sum.splits dest!: try_finally_result try_body_result)

lemma test_result_validated:
  "snd (testRouter_run env a) = Inr r \<Longrightarrow>
     \<exists>ap. handler_run env a ap = Inr r \<and> validateActionOutputs env a ''runtime'' (outputs r) = None"
  unfolding testRouter_run_def
  by (auto simp: Let_def split: sum.splits dest!: try_finally_result try_body_result)








lemma validationMessage_runA:
  "validationMessage ''runtime'' runA ''log'' TString =
     ''Error validating runtime action outputs from Run '' @ [CHR 0x27] @ ''task-a'' @ [CHR 0x27]
       @ '': key .log must be a string.''"
  by (simp add: validationMessage_def runA_fields)


subsection \<open>The process step of the execute tasks\<close>

lemma RunTask_process_result:
  "snd (RunTask_process r g x a d) = Inr res \<Longrightarrow>
     (\<exists>ra. g a d = Inr ra \<and> r ra = Inr (fst res) \<and> snd res = x ra (fst res))
     \<and> state (fst res) = ''ready''"
  by (auto simp: RunTask_process_def split: sum.splits if_splits)

lemma RunTask_process_not_ready:
  "g a d = Inr ra \<Longrightarrow> r ra = Inr st \<Longrightarrow> state st \<noteq> ''ready'' \<Longrightarrow>
     snd (RunTask_process r g x a d) = Inl (RunTaskError (map_option log (detail st)))"
  by (simp add: RunTask_process_def split: option.split)

lemma RunTask_process_throws:
  "g a d = Inr ra \<Longrightarrow> r ra = Inl e \<Longrightarrow> snd (RunTask_process r g x a d) = Inl e"
  by (simp add: RunTask_process_def)

lemma RunTask_process_calls:
  "length (filter isRouterCall (fst (RunTask_process r g x a d))) \<le> 1"
  by (simp add: RunTask_process_def split: sum.split)

lemma TestTask_process_result:
  "snd (TestTask_process r g x a d) = Inr res \<Longrightarrow>
     (\<exists>ra. g a d = Inr ra \<and> r ra = Inr (fst res) \<and> snd res = x ra (fst res))
     \<and> (\<exists>t. detail (fst res) = Some t \<and> success t)"
  by (auto simp: TestTask_process_def split: sum.splits if_splits option.splits)

lemma TestTask_process_not_successful:
  "g a d = Inr ra \<Longrightarrow> r ra = Inr st \<Longrightarrow> \<not> (\<exists>t. detail st = Some t \<and> success t) \<Longrightarrow>
     snd (TestTask_process r g x a d) = Inl (TestError (map_option log (detail st)))"
  by (simp add: TestTask_process_def split: option.split)

lemma TestTask_process_throws:
  "g a d = Inr ra \<Longrightarrow> r ra = Inl e \<Longrightarrow> snd (TestTask_process r g x a d) = Inl e"
  by (simp add: TestTask_process_def)

lemma TestTask_process_calls:
  "length (filter isRouterCall (fst (TestTask_process r g x a d))) \<le> 1"
  by (simp add: TestTask_process_def split: sum.split option.split)

lemma build_prelude_no_call: "filter isRouterCall (build_prelude a) = []"
  by (simp add: build_prelude_def)

lemma BuildTask_process_result:
  "snd (BuildTask_process b sfs sdp g x a d) = Inr res \<Longrightarrow>
     (\<exists>ra. g a d = Inr ra \<and> sfs ra = None \<and> sdp ra = None \<and> b ra = Inr (fst res)
        \<and> snd res = x ra (fst res))"
  by (auto simp: BuildTask_process_def split: sum.splits option.splits)

lemma BuildTask_process_returns:
  "g a d = Inr ra \<Longrightarrow> sfs ra = None \<Longrightarrow> sdp ra = None \<Longrightarrow> b ra = Inr st \<Longrightarrow>
     snd (BuildTask_process b sfs sdp g x a d) = Inr (st, x ra st)"
  by (simp add: BuildTask_process_def)

lemma BuildTask_process_throws:
  "g a d = Inr ra \<Longrightarrow> sfs ra = None \<Longrightarrow> sdp ra = None \<Longrightarrow> b ra = Inl e \<Longrightarrow>
     snd (BuildTask_process b sfs sdp g x a d) = Inl e"
  by (simp add: BuildTask_process_def)

lemma BuildTask_process_calls:
  "length (filter isRouterCall (fst (BuildTask_process b sfs sdp g x a d))) \<le> 1"
  by (simp add: BuildTask_process_def build_prelude_no_call split: sum.split option.split)

text \<open>The \<^verbatim>\<open>run\<close> operation of the routers, seen from the plugin handler.\<close>

lemma router_run_returns:
  assumes "tmp_dir env = Inr tmpPath" and "realpath env tmpPath = Inr rp"
    and "tmp_cleanup env tmpPath = None"
    and "handler_run env a (normalizePath env rp) = Inr st"
    and "validateActionOutputs env a ''runtime'' (outputs st) = None"
  shows "copyArtifacts env (normalizePath env rp) (getArtifactKey env ''run'' (name a) (versionString a)) = None
           \<Longrightarrow> snd (runRouter_run env a) = Inr st"
    and "copyArtifacts env (normalizePath env rp) (getArtifactKey env ''test'' (name a) (versionString a)) = None
           \<Longrightarrow> snd (testRouter_run env a) = Inr st"
  using assms
  by (simp_all add: runRouter_run_def testRouter_run_def Let_def try_finally_def run_finally_def
        run_try_body_def)

lemma router_run_handler_throws:
  assumes "tmp_dir env = Inr tmpPath" and "realpath env tmpPath = Inr rp"
    and "handler_run env a (normalizePath env rp) = Inl e"
  shows "\<exists>e'. snd (runRouter_run env a) = Inl e'"
    and "\<exists>e'. snd (testRouter_run env a) = Inl e'"
    and "tmp_cleanup env tmpPath = None \<Longrightarrow>
         copyArtifacts env (normalizePath env rp) (getArtifactKey env ''run'' (name a) (versionString a)) = None
           \<Longrightarrow> snd (runRouter_run env a) = Inl e"
    and "tmp_cleanup env tmpPath = None \<Longrightarrow>
         copyArtifacts env (normalizePath env rp) (getArtifactKey env ''test'' (name a) (versionString a)) = None
           \<Longrightarrow> snd (testRouter_run env a) = Inl e"
  using assms
  by (auto simp: runRouter_run_def testRouter_run_def Let_def try_finally_def run_finally_def
        run_try_body_def split: option.splits)

lemma router_run_calls_handler_once:
  "length (filter isCallHandler (fst (runRouter_run env a))) \<le> 1"
  "length (filter isCallHandler (fst (testRouter_run env a))) \<le> 1"
  by (simp_all add: runRouter_run_def testRouter_run_def Let_def try_finally_def run_finally_def
        run_try_body_def split: sum.split option.split)


text \<open>
  C2, as the code has it. RunTask and TestTask: \<^verbatim>\<open>process\<close> returns a result only when
  the plugin handler returned it, its outputs passed the validation, and it reports
  success (the state ready for a run, a successful detail for a test). When the handler
  returns validated outputs and neither the copy of the artifacts nor the cleanup
  throws, RunTask.process throws a \<open>RunTaskError\<close> carrying \<^verbatim>\<open>detail?.log\<close> whenever
  the state is not ready, and TestTask.process throws a \<open>TestError\<close> carrying the log
  whenever the detail is not successful. When the handler throws, \<^verbatim>\<open>process\<close> throws:
  the handler's error unchanged, unless the copy of the artifacts or the cleanup throws
  in the \<^verbatim>\<open>finally\<close> block of the router. An error thrown by the router method is always
  rethrown unchanged by the task. BuildTask: \<^verbatim>\<open>process\<close> returns the result of the
  build method of the router whatever its state, and rethrows its error unchanged. No
  task calls its router method more than once, and the router calls the handler at most
  once.
\<close>

theorem process_returns_handler_result_or_throws:
  "(snd (RunTask_process (\<lambda>act. snd (runRouter_run env act)) g x a d) = Inr res \<longrightarrow>
      (\<exists>ra ap. g a d = Inr ra \<and> handler_run env ra ap = Inr (fst res)
         \<and> validateActionOutputs env ra ''runtime'' (outputs (fst res)) = None
         \<and> snd res = x ra (fst res))
      \<and> state (fst res) = ''ready'')
   \<and> (snd (TestTask_process (\<lambda>act. snd (testRouter_run env act)) g x a d) = Inr res \<longrightarrow>
      (\<exists>ra ap. g a d = Inr ra \<and> handler_run env ra ap = Inr (fst res)
         \<and> validateActionOutputs env ra ''runtime'' (outputs (fst res)) = None
         \<and> snd res = x ra (fst res))
      \<and> (\<exists>t. detail (fst res) = Some t \<and> success t))
   \<and> (g a d = Inr ra \<and> tmp_dir env = Inr tmpPath \<and> realpath env tmpPath = Inr rp
        \<and> tmp_cleanup env tmpPath = None
        \<and> handler_run env ra (normalizePath env rp) = Inr st
        \<and> validateActionOutputs env ra ''runtime'' (outputs st) = None \<longrightarrow>
        (copyArtifacts env (normalizePath env rp) (getArtifactKey env ''run'' (name ra) (versionString ra)) = None
           \<and> state st \<noteq> ''ready'' \<longrightarrow>
           snd (RunTask_process (\<lambda>act. snd (runRouter_run env act)) g x a d) =
             Inl (RunTaskError (map_option log (detail st))))
        \<and> (copyArtifacts env (normalizePath env rp) (getArtifactKey env ''test'' (name ra) (versionString ra)) = None
           \<and> \<not> (\<exists>t. detail st = Some t \<and> success t) \<longrightarrow>
           snd (TestTask_process (\<lambda>act. snd (testRouter_run env act)) g x a d) =
             Inl (TestError (map_option log (detail st)))))
   \<and> (g a d = Inr ra \<and> tmp_dir env = Inr tmpPath \<and> realpath env tmpPath = Inr rp
        \<and> handler_run env ra (normalizePath env rp) = Inl e \<longrightarrow>
        (\<exists>e'. snd (RunTask_process (\<lambda>act. snd (runRouter_run env act)) g x a d) = Inl e')
        \<and> (\<exists>e'. snd (TestTask_process (\<lambda>act. snd (testRouter_run env act)) g x a d) = Inl e')
        \<and> (tmp_cleanup env tmpPath = None
             \<and> copyArtifacts env (normalizePath env rp) (getArtifactKey env ''run'' (name ra) (versionString ra)) = None
             \<longrightarrow> snd (RunTask_process (\<lambda>act. snd (runRouter_run env act)) g x a d) = Inl e)
        \<and> (tmp_cleanup env tmpPath = None
             \<and> copyArtifacts env (normalizePath env rp) (getArtifactKey env ''test'' (name ra) (versionString ra)) = None
             \<longrightarrow> snd (TestTask_process (\<lambda>act. snd (testRouter_run env act)) g x a d) = Inl e))
   \<and> (g a d = Inr ra \<and> r ra = Inl e \<longrightarrow>
        snd (RunTask_process r g x a d) = Inl e \<and> snd (TestTask_process r g x a d) = Inl e)
   \<and> (g a d = Inr ra \<and> sfs ra = None \<and> sdp ra = None \<and> b ra = Inr bst \<longrightarrow>
        snd (BuildTask_process b sfs sdp g y a d) = Inr (bst, y ra bst))
   \<and> (snd (BuildTask_process b sfs sdp g y a d) = Inr bres \<longrightarrow>
      (\<exists>ra. g a d = Inr ra \<and> sfs ra = None \<and> sdp ra = None \<and> b ra = Inr (fst bres)
         \<and> snd bres = y ra (fst bres)))
   \<and> (g a d = Inr ra \<and> sfs ra = None \<and> sdp ra = None \<and> b ra = Inl e \<longrightarrow>
        snd (BuildTask_process b sfs sdp g y a d) = Inl e)
   \<and> length (filter isRouterCall (fst (RunTask_process r g x a d))) \<le> 1
   \<and> length (filter isRouterCall (fst (TestTask_process r g x a d))) \<le> 1
   \<and> length (filter isRouterCall (fst (BuildTask_process b sfs sdp g y a d))) \<le> 1
   \<and> length (filter isCallHandler (fst (runRouter_run env a))) \<le> 1
   \<and> length (filter isCallHandler (fst (testRouter_run env a))) \<le> 1"
proof -
  let ?R = "\<lambda>act. snd (runRouter_run env act)"
  let ?T = "\<lambda>act. snd (testRouter_run env act)"
  have a1: "snd (RunTask_process ?R g x a d) = Inr res \<longrightarrow>
      (\<exists>ra ap. g a d = Inr ra \<and> handler_run env ra ap = Inr (fst res)
         \<and> validateActionOutputs env ra ''runtime'' (outputs (fst res)) = None
         \<and> snd res = x ra (fst res))
      \<and> state (fst res) = ''ready''"
    using RunTask_process_result [of ?R g x a d res] run_result_validated [of env _ "fst res"]
    by blast
  have a2: "snd (TestTask_process ?T g x a d) = Inr res \<longrightarrow>
      (\<exists>ra ap. g a d = Inr ra \<and> handler_run env ra ap = Inr (fst res)
         \<and> validateActionOutputs env ra ''runtime'' (outputs (fst res)) = None
         \<and> snd res = x ra (fst res))
      \<and> (\<exists>t. detail (fst res) = Some t \<and> success t)"
    using TestTask_process_result [of ?T g x a d res] test_result_validated [of env _ "fst res"]
    by blast
  have a3: "g a d = Inr ra \<and> tmp_dir env = Inr tmpPath \<and> realpath env tmpPath = Inr rp
        \<and> tmp_cleanup env tmpPath = None
        \<and> handler_run env ra (normalizePath env rp) = Inr st
        \<and> validateActionOutputs env ra ''runtime'' (outputs st) = None \<longrightarrow>
        (copyArtifacts env (normalizePath env rp) (getArtifactKey env ''run'' (name ra) (versionString ra)) = None
           \<and> state st \<noteq> ''ready'' \<longrightarrow>
           snd (RunTask_process ?R g x a d) = Inl (RunTaskError (map_option log (detail st))))
        \<and> (copyArtifacts env (normalizePath env rp) (getArtifactKey env ''test'' (name ra) (versionString ra)) = None
           \<and> \<not> (\<exists>t. detail st = Some t \<and> success t) \<longrightarrow>
           snd (TestTask_process ?T g x a d) = Inl (TestError (map_option log (detail st))))"
    using router_run_returns [of env tmpPath rp ra st]
      RunTask_process_not_ready [of g a d ra ?R st x]
      TestTask_process_not_successful [of g a d ra ?T st x]
    by blast
  have a4: "g a d = Inr ra \<and> tmp_dir env = Inr tmpPath \<and> realpath env tmpPath = Inr rp
        \<and> handler_run env ra (normalizePath env rp) = Inl e \<longrightarrow>
        (\<exists>e'. snd (RunTask_process ?R g x a d) = Inl e')
        \<and> (\<exists>e'. snd (TestTask_process ?T g x a d) = Inl e')
        \<and> (tmp_cleanup env tmpPath = None
             \<and> copyArtifacts env (normalizePath env rp) (getArtifactKey env ''run'' (name ra) (versionString ra)) = None
             \<longrightarrow> snd (RunTask_process ?R g x a d) = Inl e)
        \<and> (tmp_cleanup env tmpPath = None
             \<and> copyArtifacts env (normalizePath env rp) (getArtifactKey env ''test'' (name ra) (versionString ra)) = None
             \<longrightarrow> snd (TestTask_process ?T g x a d) = Inl e)"
    using router_run_handler_throws [of env tmpPath rp ra e]
      RunTask_process_throws [of g a d ra ?R _ x] TestTask_process_throws [of g a d ra ?T _ x]
    by metis
  have a5: "g a d = Inr ra \<and> r ra = Inl e \<longrightarrow>
        snd (RunTask_process r g x a d) = Inl e \<and> snd (TestTask_process r g x a d) = Inl e"
    using RunTask_process_throws [of g a d ra r e x] TestTask_process_throws [of g a d ra r e x]
    by blast
  have a6: "g a d = Inr ra \<and> sfs ra = None \<and> sdp ra = None \<and> b ra = Inr bst \<longrightarrow>
        snd (BuildTask_process b sfs sdp g y a d) = Inr (bst, y ra bst)"
    using BuildTask_process_returns [of g a d ra sfs sdp b bst y] by blast
  have a7: "snd (BuildTask_process b sfs sdp g y a d) = Inr bres \<longrightarrow>
      (\<exists>ra. g a d = Inr ra \<and> sfs ra = None \<and> sdp ra = None \<and> b ra = Inr (fst bres)
         \<and> snd bres = y ra (fst bres))"
    using BuildTask_process_result [of b sfs sdp g y a d bres] by blast
  have a8: "g a d = Inr ra \<and> sfs ra = None \<and> sdp ra = None \<and> b ra = Inl e \<longrightarrow>
        snd (BuildTask_process b sfs sdp g y a d) = Inl e"
    using BuildTask_process_throws [of g a d ra sfs sdp b e y] by blast
  show ?thesis
    using a1 a2 a3 a4 a5 a6 a7 a8
      RunTask_process_calls [of r g x a d] TestTask_process_calls [of r g x a d]
      BuildTask_process_calls [of b sfs sdp g y a d] router_run_calls_handler_once [of env a]
    by blast
qed


lemma envThrows_store:
  "copyArtifacts envThrows p k = None" "tmp_cleanup envThrows p = None"
  by (simp_all add: envThrows_def envOk_def)

lemma envNotReady_simps:
  "tmp_dir envNotReady = Inr ''/tmp/garden-1''" "realpath envNotReady p = Inr p"
  "normalizePath envNotReady p = p"
  "handler_run envNotReady a p = Inr failedResult"
  "validateActionOutputs envNotReady = validateActionOutputs_spec runSchema"
  "copyArtifacts envNotReady p k = None" "tmp_cleanup envNotReady p = None"
  by (simp_all add: envNotReady_def envOk_def)

lemma envNotReadyBad_simps:
  "tmp_dir envNotReadyBad = Inr ''/tmp/garden-1''" "realpath envNotReadyBad p = Inr p"
  "normalizePath envNotReadyBad p = p"
  "handler_run envNotReadyBad a p = Inr notReadyBadResult"
  "validateActionOutputs envNotReadyBad = validateActionOutputs_spec runSchema"
  "copyArtifacts envNotReadyBad p k = None" "tmp_cleanup envNotReadyBad p = None"
  by (simp_all add: envNotReadyBad_def envOk_def)

lemma envCopyFails_simps:
  "tmp_dir envCopyFails = Inr ''/tmp/garden-1''" "realpath envCopyFails p = Inr p"
  "normalizePath envCopyFails p = p"
  "handler_run envCopyFails a p = Inl (Thrown ''command failed'')"
  "copyArtifacts envCopyFails p k = Some (Thrown ''copy failed'')" "tmp_cleanup envCopyFails p = None"
  by (simp_all add: envCopyFails_def envThrows_def envOk_def)

lemma failedResult_valid:
  "validateActionOutputs_spec runSchema a ''runtime'' (outputs failedResult) = None"
  by (simp add: validateActionOutputs_spec_def runSchema_def failedResult_def)

lemma notReadyBad_invalid:
  "validateActionOutputs_spec runSchema a ''runtime'' (outputs notReadyBadResult) =
     Some (PluginError (validationMessage ''runtime'' a ''log'' TString))"
  by (simp add: validateActionOutputs_spec_def runSchema_def notReadyBadResult_def)

theorem process_returns_handler_result_or_throws_witness:
  "snd (RunTask_process (\<lambda>act. snd (runRouter_run envOk act)) (\<lambda>a d. Inr a) (\<lambda>a st. name a) runA ()) =
       Inr (okResult, ''task-a'')
   \<and> state okResult = ''ready''
   \<and> handler_run envNotReady runA ''/tmp/garden-1'' = Inr failedResult
   \<and> snd (RunTask_process (\<lambda>act. snd (runRouter_run envNotReady act)) (\<lambda>a d. Inr a) (\<lambda>a st. name a) runA ()) =
       Inl (RunTaskError (Some ''exit 1''))
   \<and> snd (TestTask_process (\<lambda>act. snd (testRouter_run envNotReady act)) (\<lambda>a d. Inr a) (\<lambda>a st. name a) runA ()) =
       Inl (TestError (Some ''exit 1''))
   \<and> handler_run envThrows runA ''/tmp/garden-1'' = Inl (Thrown ''command failed'')
   \<and> snd (RunTask_process (\<lambda>act. snd (runRouter_run envThrows act)) (\<lambda>a d. Inr a) (\<lambda>a st. name a) runA ()) =
       Inl (Thrown ''command failed'')
   \<and> snd (TestTask_process (\<lambda>act. snd (testRouter_run envThrows act)) (\<lambda>a d. Inr a) (\<lambda>a st. name a) runA ()) =
       Inl (Thrown ''command failed'')
   \<and> snd (BuildTask_process (\<lambda>a. Inl (Thrown ''docker build failed'')) (\<lambda>a. None) (\<lambda>a. None)
            (\<lambda>a d. Inr a) (\<lambda>a (st :: unit ActionStatus). name a) buildA ()) =
       Inl (Thrown ''docker build failed'')"
proof -
  let ?g = "\<lambda>(a :: Action) (d :: unit). (Inr a :: err + Action)"
  let ?x = "\<lambda>(a :: Action) (st :: GetRunResult). name a"
  let ?y = "\<lambda>(a :: Action) (st :: unit ActionStatus). name a"
  let ?bthrows = "\<lambda>a :: Action. (Inl (Thrown ''docker build failed'') :: err + unit ActionStatus)"
  let ?none = "\<lambda>a :: Action. (None :: err option)"
  have okr: "snd (runRouter_run envOk runA) = Inr okResult"
    using okResult_valid [of runA]
    by (simp add: runRouter_run_def try_finally_def run_finally_def run_try_body_def Let_def envOk_simps)
  have ok: "snd (RunTask_process (\<lambda>act. snd (runRouter_run envOk act)) ?g ?x runA ()) =
       Inr (okResult, ''task-a'')"
    by (simp add: RunTask_process_def okr okResult_def runA_fields)
  have ready: "state okResult = ''ready''"
    using ok process_returns_handler_result_or_throws [where env = envOk and g = ?g and x = ?x
        and a = runA and d = "()" and res = "(okResult, ''task-a'')", THEN conjunct1]
    by simp
  have nr: "state failedResult \<noteq> ''ready''" "\<not> (\<exists>t. detail failedResult = Some t \<and> success t)"
    "map_option log (detail failedResult) = Some ''exit 1''"
    by (simp_all add: failedResult_def failedDetail_def)
  have failed: "snd (RunTask_process (\<lambda>act. snd (runRouter_run envNotReady act)) ?g ?x runA ()) =
         Inl (RunTaskError (Some ''exit 1''))
      \<and> snd (TestTask_process (\<lambda>act. snd (testRouter_run envNotReady act)) ?g ?x runA ()) =
         Inl (TestError (Some ''exit 1''))"
    using nr failedResult_valid [of runA]
      process_returns_handler_result_or_throws [where env = envNotReady and g = ?g and x = ?x
        and a = runA and d = "()" and ra = runA and st = failedResult
        and tmpPath = "''/tmp/garden-1''" and rp = "''/tmp/garden-1''",
        THEN conjunct2, THEN conjunct2, THEN conjunct1]
    by (simp add: envNotReady_simps)
  have thrown: "snd (RunTask_process (\<lambda>act. snd (runRouter_run envThrows act)) ?g ?x runA ()) =
         Inl (Thrown ''command failed'')
      \<and> snd (TestTask_process (\<lambda>act. snd (testRouter_run envThrows act)) ?g ?x runA ()) =
         Inl (Thrown ''command failed'')"
    using process_returns_handler_result_or_throws [where env = envThrows and g = ?g and x = ?x
        and a = runA and d = "()" and ra = runA and e = "Thrown ''command failed''"
        and tmpPath = "''/tmp/garden-1''" and rp = "''/tmp/garden-1''",
        THEN conjunct2, THEN conjunct2, THEN conjunct2, THEN conjunct1]
    by (simp add: envThrows_simps envThrows_store)
  have bthrown: "snd (BuildTask_process ?bthrows ?none ?none ?g ?y buildA ()) =
       Inl (Thrown ''docker build failed'')"
    using process_returns_handler_result_or_throws [where b = ?bthrows and sfs = ?none and sdp = ?none
        and g = ?g and y = ?y and a = buildA and d = "()" and ra = buildA
        and e = "Thrown ''docker build failed''",
        THEN conjunct2, THEN conjunct2, THEN conjunct2, THEN conjunct2, THEN conjunct2, THEN conjunct2,
        THEN conjunct2, THEN conjunct1]
    by simp
  show ?thesis
    using ok ready failed thrown bthrown by (simp add: envNotReady_simps envThrows_simps)
qed

theorem process_result_without_success_counterexample:
  "state failedBuild = ''failed''
   \<and> snd (BuildTask_process (\<lambda>a. Inr failedBuild) (\<lambda>a. None) (\<lambda>a. None) (\<lambda>a d. Inr a)
            (\<lambda>a st. name a) buildA ()) = Inr (failedBuild, ''module-a'')
   \<and> handler_run envCopyFails runA ''/tmp/garden-1'' = Inl (Thrown ''command failed'')
   \<and> snd (RunTask_process (\<lambda>act. snd (runRouter_run envCopyFails act)) (\<lambda>a d. Inr a)
            (\<lambda>a st. name a) runA ()) = Inl (Thrown ''copy failed'')
   \<and> handler_run envNotReadyBad runA ''/tmp/garden-1'' = Inr notReadyBadResult
   \<and> state notReadyBadResult = ''not-ready''
   \<and> snd (RunTask_process (\<lambda>act. snd (runRouter_run envNotReadyBad act)) (\<lambda>a d. Inr a)
            (\<lambda>a st. name a) runA ()) =
        Inl (PluginError (''Error validating runtime action outputs from Run '' @ [CHR 0x27] @ ''task-a''
          @ [CHR 0x27] @ '': key .log must be a string.''))"
proof -
  have b: "snd (BuildTask_process (\<lambda>a. Inr failedBuild) (\<lambda>a. None) (\<lambda>a. None) (\<lambda>a d. Inr a)
            (\<lambda>a st. name a) buildA ()) = Inr (failedBuild, ''module-a'')"
    by (simp add: BuildTask_process_def buildA_def)
  have c: "snd (runRouter_run envCopyFails runA) = Inl (Thrown ''copy failed'')"
    by (simp add: runRouter_run_def try_finally_def run_finally_def run_try_body_def Let_def
          envCopyFails_simps)
  have v: "snd (runRouter_run envNotReadyBad runA) =
      Inl (PluginError (validationMessage ''runtime'' runA ''log'' TString))"
    using notReadyBad_invalid [of runA]
    by (simp add: runRouter_run_def try_finally_def run_finally_def run_try_body_def Let_def
          envNotReadyBad_simps)
  show ?thesis
    using b
    by (simp add: RunTask_process_def c v validationMessage_runA failedBuild_def
          notReadyBadResult_def envCopyFails_simps envNotReadyBad_simps)
qed

subsection \<open>The status check of the tasks\<close>













subsection \<open>Errors of the status check\<close>

lemma RunTask_getStatus_rethrows:
  "g a d = Inr ra \<Longrightarrow> r ra = Inl e \<Longrightarrow>
     RunTask_getStatus r g x a d =
       ([LogMessage ''Checking result...'', RouterCall ''run.getResult'', LogSetError None], Inl e)"
  by (simp add: RunTask_getStatus_def)

lemma RunTask_getStatus_null_only:
  "snd (RunTask_getStatus r g x a d) = Inr None \<Longrightarrow>
     \<exists>ra st. g a d = Inr ra \<and> r ra = Inr st \<and> detail st = None"
  by (auto simp: RunTask_getStatus_def split: sum.splits if_splits)

text \<open>
  C5, as the code has it. RunTask.getStatus does not turn an error of the status check
  into the result "not up to date": when the router's \<^verbatim>\<open>getResult\<close> throws, the
  \<^verbatim>\<open>catch\<close> block marks the log entry of the task as failed and throws the same error
  again, so the caller of \<^verbatim>\<open>getStatus\<close> receives the error; \<^verbatim>\<open>getStatus\<close> returns
  null only when \<^verbatim>\<open>getResult\<close> returned a status whose detail is null.
\<close>

theorem getStatus_rethrows_status_error:
  "(g a d = Inr ra \<and> r ra = Inl e \<longrightarrow>
      RunTask_getStatus r g x a d =
        ([LogMessage ''Checking result...'', RouterCall ''run.getResult'', LogSetError None], Inl e))
   \<and> (snd (RunTask_getStatus r g x a d) = Inr None \<longrightarrow>
        (\<exists>ra st. g a d = Inr ra \<and> r ra = Inr st \<and> detail st = None))"
  using RunTask_getStatus_rethrows [of g a d ra r e x] RunTask_getStatus_null_only [of r g x a d]
  by blast

theorem getStatus_rethrows_status_error_witness:
  "RunTask_getStatus (\<lambda>a. Inl (Thrown ''connection refused'')) (\<lambda>a d. Inr a) (\<lambda>a st. name a) runA () =
     ([LogMessage ''Checking result...'', RouterCall ''run.getResult'', LogSetError None],
      Inl (Thrown ''connection refused''))"
  using getStatus_rethrows_status_error [where g = "\<lambda>(a :: Action) (d :: unit). (Inr a :: err + Action)"
      and a = runA and d = "()" and ra = runA
      and r = "\<lambda>a :: Action. (Inl (Thrown ''connection refused'') :: err + GetRunResult)"
      and e = "Thrown ''connection refused''" and x = "\<lambda>(a :: Action) (st :: GetRunResult). name a",
      THEN conjunct1]
  by simp

theorem status_error_not_up_to_date_counterexample:
  "snd (RunTask_getStatus (\<lambda>a. Inl (Thrown ''connection refused'')) (\<lambda>a d. Inr a) (\<lambda>a st. name a) runA ())
     = Inl (Thrown ''connection refused'')
   \<and> snd (RunTask_getStatus (\<lambda>a. Inl (Thrown ''connection refused'')) (\<lambda>a d. Inr a) (\<lambda>a st. name a) runA ())
     \<noteq> Inr None
   \<and> LogSetError None \<in>
       set (fst (RunTask_getStatus (\<lambda>a. Inl (Thrown ''connection refused'')) (\<lambda>a d. Inr a)
                   (\<lambda>a st. name a) runA ()))"
  by (simp add: RunTask_getStatus_def)

subsection \<open>The concurrency limit of build and publish tasks\<close>

lemma length_filter_remove1: "length (filter P (remove1 x xs)) \<le> length (filter P xs)"
  by (induction xs) auto

lemma task_limit_of_type:
  "task_type t = ''build'' \<Longrightarrow> task_concurrencyLimit dflt t = 5"
  "task_type t = ''publish'' \<Longrightarrow> task_concurrencyLimit dflt t = 5"
  by (cases t; simp add: BuildTask_type_def PublishTask_type_def BuildTask_concurrencyLimit_def
        PublishTask_concurrencyLimit_def)+

lemma sched_step_bound:
  assumes "sched_step dflt ceiling depsOf st ev = Some st'"
    and "ty = ''build'' \<or> ty = ''publish''"
    and "length (inProcessOfType st ty) \<le> 5"
  shows "length (inProcessOfType st' ty) \<le> 5"
proof (cases ev)
  case (Start t)
  with assms(1) have can: "canStart dflt ceiling depsOf st t"
    and st': "st' = st \<lparr> pending := remove1 t (pending st), inProgress := t # inProgress st \<rparr>"
    by (auto split: if_splits)
  show ?thesis
  proof (cases "task_type t = ty")
    case True
    with assms(2) have "task_concurrencyLimit dflt t = 5"
      using task_limit_of_type [of t dflt] by blast
    with can True have "length (inProcessOfType st ty) < 5"
      by (simp add: canStart_def)
    with True st' show ?thesis
      by (simp add: inProcessOfType_def)
  next
    case False
    with st' assms(3) show ?thesis
      by (simp add: inProcessOfType_def)
  qed
next
  case (Finish t)
  with assms(1) have "st' = st \<lparr> inProgress := remove1 t (inProgress st), completed := t # completed st \<rparr>"
    by (auto split: if_splits)
  then have "length (inProcessOfType st' ty) \<le> length (inProcessOfType st ty)"
    by (simp add: inProcessOfType_def length_filter_remove1)
  with assms(3) show ?thesis
    by simp
qed

lemma sched_run_bound:
  "sched_run dflt ceiling depsOf st evs = Some st' \<Longrightarrow> ty = ''build'' \<or> ty = ''publish'' \<Longrightarrow>
     length (inProcessOfType st ty) \<le> 5 \<Longrightarrow> length (inProcessOfType st' ty) \<le> 5"
proof (induction evs arbitrary: st)
  case Nil
  then show ?case by simp
next
  case (Cons ev evs)
  from Cons.prems(1) obtain st1 where step: "sched_step dflt ceiling depsOf st ev = Some st1"
    and rest: "sched_run dflt ceiling depsOf st1 evs = Some st'"
    by (auto split: option.splits)
  from sched_step_bound [OF step Cons.prems(2) Cons.prems(3)]
  have "length (inProcessOfType st1 ty) \<le> 5" .
  from Cons.IH [OF rest Cons.prems(2) this] show ?case .
qed

text \<open>
  C7. Every BuildTask declares the type \<^verbatim>\<open>build\<close> and the concurrency limit 5, and every
  PublishTask declares the concurrency limit 5. Under a scheduler that starts a task
  only while fewer tasks of its type than the limit the task declares are inside
  \<^verbatim>\<open>process\<close>, no run over any set of tasks, whatever their number and their
  dependencies, has more than 5 build tasks, or more than 5 publish tasks, inside
  \<^verbatim>\<open>process\<close> at the same time.
\<close>

theorem at_most_five_builds_in_process:
  "task_type (BuildTask p a f) = ''build''
   \<and> task_concurrencyLimit dflt (BuildTask p a f) = 5
   \<and> task_concurrencyLimit dflt (PublishTask p a tag) = 5
   \<and> (sched_run dflt ceiling depsOf (sched_init tasks) evs = Some st \<longrightarrow>
        length (inProcessOfType st ''build'') \<le> 5 \<and> length (inProcessOfType st ''publish'') \<le> 5)"
proof -
  have init: "length (inProcessOfType (sched_init tasks) ty) \<le> 5" for ty
    by (simp add: inProcessOfType_def sched_init_def)
  have "length (inProcessOfType st ''build'') \<le> 5 \<and> length (inProcessOfType st ''publish'') \<le> 5"
    if run: "sched_run dflt ceiling depsOf (sched_init tasks) evs = Some st"
    using sched_run_bound [OF run _ init] by blast
  then show ?thesis
    by (simp add: BuildTask_type_def BuildTask_concurrencyLimit_def PublishTask_concurrencyLimit_def)
qed


theorem at_most_five_builds_in_process_witness:
  "sched_run 10 50 noDeps (sched_init sixBuilds) (map Start (take 5 sixBuilds)) = Some fiveInProcess
   \<and> length (inProcessOfType fiveInProcess ''build'') \<le> 5
   \<and> length (inProcessOfType fiveInProcess ''build'') = 5
   \<and> sched_run 10 50 noDeps (sched_init sixBuilds) (map Start sixBuilds) = None"
proof -
  have five: "sched_run 10 50 noDeps (sched_init sixBuilds) (map Start (take 5 sixBuilds)) = Some fiveInProcess"
    by (simp add: sixBuilds_def fiveInProcess_def sched_init_def canStart_def noDeps_def
          inProcessOfType_def BuildTask_type_def BuildTask_concurrencyLimit_def)
  have six: "sched_run 10 50 noDeps (sched_init sixBuilds) (map Start sixBuilds) = None"
    by (simp add: sixBuilds_def sched_init_def canStart_def noDeps_def inProcessOfType_def
          BuildTask_type_def BuildTask_concurrencyLimit_def)
  have tight: "length (inProcessOfType fiveInProcess ''build'') = 5"
    by (simp add: fiveInProcess_def inProcessOfType_def BuildTask_type_def)
  have "length (inProcessOfType fiveInProcess ''build'') \<le> 5"
    using five at_most_five_builds_in_process [where dflt = 10 and ceiling = 50 and depsOf = noDeps
        and tasks = sixBuilds and evs = "map Start (take 5 sixBuilds)" and st = fiveInProcess,
        THEN conjunct2, THEN conjunct2, THEN conjunct2, THEN mp, THEN conjunct1]
    by simp
  then show ?thesis
    using five six tight by blast
qed

end
